theory Spec2Isabelle
  imports Complex_Main
begin

section \<open>Data model of the recommendation client (frontend/src/App.js)\<close>

text \<open>
  A JavaScript number is a double: a finite one is modelled by its exact rational
  value, and the three others are kept apart. \<open>JSON.parse\<close> delivers the infinite
  ones for literals beyond the range (\<open>1e400\<close>), \<open>parseFloat\<close> delivers \<open>NaN\<close>.
\<close>

datatype number = Finite rat | Infinity | NegInfinity | NaN

text \<open>
  A recommendation is a record of an identifier and a score, as the endpoints document
  it.
\<close>

record recommendation =
  chatroom_id :: string
  predicted_score :: number

record threshold_config =
  motivation :: number
  pressure :: number
  credit_level :: string

text \<open>The five \<open>useState\<close> cells of \<open>App\<close>.\<close>

record app_state =
  userId :: string
  recommendations :: "recommendation list"
  loading :: bool
  error :: "string option"
  thresholds :: threshold_config

definition initial_state :: app_state where
  "initial_state =
     \<lparr>userId = [], recommendations = [], loading = False, error = None,
      thresholds = \<lparr>motivation = Finite (3602879701896397 / 36028797018963968),
                    pressure = Finite (1 / 2), credit_level = ''partial''\<rparr>\<rparr>"

subsection \<open>What axios delivers\<close>

record 'd response =
  status :: nat
  data :: 'd

text \<open>
  The body of a success response, as \<open>response.data\<close>. A body that is JSON
  \<open>null\<close> has no properties to read. Any other body is read for its
  \<open>recommendations\<close>: a list, or nothing when the field is omitted, when it holds a
  falsy value, or when the body is a string or a number.
\<close>

record rec_body =
  body_recommendations :: "recommendation list option"

datatype 'b json_data = JsonNull | JsonBody 'b

record err_body =
  detail :: "string option"

text \<open>
  A thrown value: an axios error carries the response when the server answered (a
  network failure has none), and its body when the answer had one; any other JavaScript
  error has a message only.
\<close>

record js_error =
  response :: "err_body option response option"
  message :: string

datatype 'a settled = Resolved 'a | Rejected js_error

record filters_t =
  top_k :: nat

record create_body =
  user_id :: string
  filters :: filters_t
  body_thresholds :: threshold_config

text \<open>The remote API, as seen by one submission: what each request is answered with.\<close>

record backend =
  axios_get :: "string \<Rightarrow> rec_body json_data response settled"
  axios_post :: "string \<Rightarrow> create_body \<Rightarrow> rec_body json_data response settled"

subsection \<open>Effects of the handler\<close>

datatype log_arg = LogData err_body | LogMessage string

datatype effect =
    PreventDefault
  | SetLoading bool
  | SetError "string option"
  | SetRecommendations "recommendation list"
  | AxiosGet string
  | AxiosPost string create_body
  | ConsoleError string log_arg

fun apply_effect :: "effect \<Rightarrow> app_state \<Rightarrow> app_state" where
  "apply_effect (SetLoading b) s = s\<lparr>loading := b\<rparr>"
| "apply_effect (SetError e) s = s\<lparr>error := e\<rparr>"
| "apply_effect (SetRecommendations rs) s = s\<lparr>recommendations := rs\<rparr>"
| "apply_effect _ s = s"

text \<open>A run is the component state so far and the effects so far, oldest first.\<close>

type_synonym run = "app_state \<times> effect list"

definition perform :: "effect \<Rightarrow> run \<Rightarrow> run" where
  "perform e r = (apply_effect e (fst r), snd r @ [e])"

text \<open>How a block of statements completes: it falls through, returns, or throws.\<close>

datatype completion = Normal | Return | Throw js_error

section \<open>The submit handler\<close>

definition get_url :: "string \<Rightarrow> string" where
  "get_url uid = ''http://localhost:8000/recommendations/'' @ uid"

definition post_url :: string where
  "post_url = ''http://localhost:8000/recommendations''"

text \<open>\<open>v || []\<close> on a list or an omitted field: every array is truthy, also the empty one.\<close>

definition or_empty :: "'a list option \<Rightarrow> 'a list" where
  "or_empty v = (case v of None \<Rightarrow> [] | Some xs \<Rightarrow> xs)"

text \<open>
  \<open>response.data.recommendations\<close>: reading a property of \<open>null\<close> throws a
  TypeError, which has a message and no response.
\<close>

definition null_property_error :: js_error where
  "null_property_error =
     \<lparr>response = None,
      message = ''Cannot read properties of null (reading 'recommendations')''\<rparr>"

definition read_recommendations ::
  "rec_body json_data \<Rightarrow> js_error + recommendation list option" where
  "read_recommendations d =
     (case d of JsonNull \<Rightarrow> Inl null_property_error | JsonBody b \<Rightarrow> Inr (body_recommendations b))"

text \<open>
  The inner \<open>try\<close> block (lines 24 to 28), from the point where the awaited read
  request has settled.
\<close>

definition after_get :: "rec_body json_data response settled \<Rightarrow> run \<Rightarrow> completion \<times> run" where
  "after_get outcome r =
     (case outcome of
        Rejected err \<Rightarrow> (Throw err, r)
      | Resolved resp \<Rightarrow>
          (case read_recommendations (data resp) of
             Inl err \<Rightarrow> (Throw err, r)
           | Inr v \<Rightarrow> (Return, perform (SetRecommendations (or_empty v)) r)))"

definition read_existing :: "backend \<Rightarrow> string \<Rightarrow> run \<Rightarrow> completion \<times> run" where
  "read_existing srv uid r =
     after_get (axios_get srv (get_url uid)) (perform (AxiosGet (get_url uid)) r)"

text \<open>\<open>err.response?.status\<close>: undefined when the error has no response.\<close>

definition response_status :: "js_error \<Rightarrow> nat option" where
  "response_status err = map_option status (response err)"

text \<open>The inner \<open>catch\<close> (lines 29 to 34): only a 404 is swallowed.\<close>

definition catch_not_found :: "completion \<times> run \<Rightarrow> completion \<times> run" where
  "catch_not_found cr =
     (case fst cr of
        Throw err \<Rightarrow> if response_status err \<noteq> Some 404 then (Throw err, snd cr)
                     else (Normal, snd cr)
      | _ \<Rightarrow> cr)"

definition request_body :: "string \<Rightarrow> threshold_config \<Rightarrow> create_body" where
  "request_body uid th = \<lparr>user_id = uid, filters = \<lparr>top_k = 5\<rparr>, body_thresholds = th\<rparr>"

text \<open>Lines 37 to 47, split at the \<open>await\<close> in the same way.\<close>

definition after_post :: "rec_body json_data response settled \<Rightarrow> run \<Rightarrow> completion \<times> run" where
  "after_post outcome r =
     (case outcome of
        Rejected err \<Rightarrow> (Throw err, r)
      | Resolved resp \<Rightarrow>
          (case read_recommendations (data resp) of
             Inl err \<Rightarrow> (Throw err, r)
           | Inr v \<Rightarrow> (Normal, perform (SetRecommendations (or_empty v)) r)))"

definition create_new ::
  "backend \<Rightarrow> string \<Rightarrow> threshold_config \<Rightarrow> run \<Rightarrow> completion \<times> run" where
  "create_new srv uid th r =
     after_post (axios_post srv post_url (request_body uid th))
       (perform (AxiosPost post_url (request_body uid th)) r)"

text \<open>The outer \<open>try\<close> block: the creation is reached only when the read fell through.\<close>

definition try_block ::
  "backend \<Rightarrow> string \<Rightarrow> threshold_config \<Rightarrow> run \<Rightarrow> completion \<times> run" where
  "try_block srv uid th r =
     (let cr = catch_not_found (read_existing srv uid r) in
      case fst cr of
        Normal \<Rightarrow> create_new srv uid th (snd cr)
      | _ \<Rightarrow> cr)"

text \<open>\<open>err.response?.data?.detail\<close>.\<close>

definition response_detail :: "js_error \<Rightarrow> string option" where
  "response_detail err =
     (case response err of
        None \<Rightarrow> None
      | Some resp \<Rightarrow> (case data resp of None \<Rightarrow> None | Some b \<Rightarrow> detail b))"

text \<open>
  The conditional of lines 49 to 51 tests the detail for truthiness: an omitted detail
  and the empty string both take the fallback.
\<close>

definition errorMessage :: "js_error \<Rightarrow> string" where
  "errorMessage err =
     (case response_detail err of
        None \<Rightarrow> ''Failed to get recommendations''
      | Some d \<Rightarrow> if d = [] then ''Failed to get recommendations'' else ''Error: '' @ d)"

text \<open>\<open>err.response?.data || err.message\<close>.\<close>

definition log_payload :: "js_error \<Rightarrow> log_arg" where
  "log_payload err =
     (case response err of
        None \<Rightarrow> LogMessage (message err)
      | Some resp \<Rightarrow>
          (case data resp of None \<Rightarrow> LogMessage (message err) | Some b \<Rightarrow> LogData b))"

text \<open>The outer \<open>catch\<close> (lines 48 to 53).\<close>

definition catch_block :: "completion \<times> run \<Rightarrow> completion \<times> run" where
  "catch_block cr =
     (case fst cr of
        Throw err \<Rightarrow>
          (Normal,
           perform (ConsoleError ''Request failed:'' (log_payload err))
             (perform (SetError (Some (errorMessage err))) (snd cr)))
      | _ \<Rightarrow> cr)"

text \<open>The \<open>finally\<close> block runs on every completion and keeps it.\<close>

definition finally_block :: "completion \<times> run \<Rightarrow> completion \<times> run" where
  "finally_block cr = (fst cr, perform (SetLoading False) (snd cr))"

text \<open>
  \<open>handleSubmit\<close> closes over the \<open>userId\<close> and \<open>thresholds\<close> of the render that
  created it, which is the state the submission starts from.
\<close>

definition handleSubmit :: "backend \<Rightarrow> app_state \<Rightarrow> completion \<times> run" where
  "handleSubmit srv s =
     finally_block
       (catch_block
          (try_block srv (userId s) (thresholds s)
             (perform (SetError None)
                (perform (SetLoading True)
                   (perform PreventDefault (s, []))))))"

definition final_state :: "completion \<times> run \<Rightarrow> app_state" where
  "final_state cr = fst (snd cr)"

definition trace :: "completion \<times> run \<Rightarrow> effect list" where
  "trace cr = snd (snd cr)"

section \<open>What is observed of a submission\<close>

fun posts :: "effect list \<Rightarrow> (string \<times> create_body) list" where
  "posts [] = []"
| "posts (AxiosPost url body # es) = (url, body) # posts es"
| "posts (_ # es) = posts es"

fun updates :: "effect list \<Rightarrow> recommendation list list" where
  "updates [] = []"
| "updates (SetRecommendations rs # es) = rs # updates es"
| "updates (_ # es) = updates es"

fun logged :: "effect list \<Rightarrow> (string \<times> log_arg) list" where
  "logged [] = []"
| "logged (ConsoleError label arg # es) = (label, arg) # logged es"
| "logged (_ # es) = logged es"

section \<open>The result renderer\<close>

subsection \<open>\<open>Number.prototype.toFixed\<close>\<close>

definition digit_char :: "nat \<Rightarrow> char" where
  "digit_char d = ''0123456789'' ! d"

fun digits :: "nat \<Rightarrow> string" where
  "digits n = (if n < 10 then [digit_char n] else digits (n div 10) @ [digit_char (n mod 10)])"

declare digits.simps [simp del]

definition point_before_last :: "nat \<Rightarrow> string \<Rightarrow> string" where
  "point_before_last f m =
     (let k = length m;
          m = (if k \<le> f then replicate (f + 1 - k) (CHR ''0'') @ m else m);
          k = (if k \<le> f then f + 1 else k)
      in take (k - f) m @ ''.'' @ drop (k - f) m)"

subsection \<open>\<open>Number::toString\<close> from \<open>10 ^ 21\<close> on\<close>

text \<open>
  A double \<open>x\<close> of at least \<open>10 ^ 21\<close> is an integer \<open>m * 2 ^ e\<close> with
  \<open>2 ^ 52 \<le> m < 2 ^ 53\<close>; \<open>ulp x\<close> is its \<open>2 ^ e\<close>.
\<close>

fun bits :: "nat \<Rightarrow> nat" where
  "bits n = (if n = 0 then 0 else Suc (bits (n div 2)))"

declare bits.simps [simp del]

definition ulp :: "rat \<Rightarrow> rat" where
  "ulp x = 2 ^ (bits (nat \<lfloor>x\<rfloor>) - 53)"

text \<open>
  \<open>rounds_to v x\<close>: the double nearest to the value \<open>v\<close> is \<open>x\<close>, a tie going to
  the even significand. Below \<open>x\<close> the doubles are half as far apart when \<open>x\<close> is a
  power of two.
\<close>

definition rounds_to :: "rat \<Rightarrow> rat \<Rightarrow> bool" where
  "rounds_to v x =
     (let u = ulp x;
          m = \<lfloor>x / u\<rfloor>;
          lo = x - (if m = 2 ^ 52 then u / 4 else u / 2);
          hi = x + u / 2
      in if even m then lo \<le> v \<and> v \<le> hi else lo < v \<and> v < hi)"

text \<open>
  The decimals of \<open>k\<close> significant digits next to \<open>x\<close>, below and above: the one
  that rounds to \<open>x\<close>, and of two the nearer one, and of two equally near the one with
  the even last digit.
\<close>

definition pick :: "nat \<Rightarrow> rat \<Rightarrow> nat option" where
  "pick k x =
     (let i = nat \<lfloor>x\<rfloor>;
          p = 10 ^ (length (digits i) - k);
          lo = (i div p) * p;
          hi = lo + p
      in if rounds_to (of_nat lo) x \<and> rounds_to (of_nat hi) x
         then (if x - of_nat lo < of_nat hi - x then Some lo
               else if of_nat hi - x < x - of_nat lo then Some hi
               else if even (i div p) then Some lo else Some hi)
         else if rounds_to (of_nat lo) x then Some lo
         else if rounds_to (of_nat hi) x then Some hi
         else None)"

text \<open>The decimal of the fewest significant digits that rounds to \<open>x\<close>.\<close>

fun shortest :: "nat \<Rightarrow> nat \<Rightarrow> rat \<Rightarrow> nat" where
  "shortest 0 k x = nat \<lfloor>x\<rfloor>"
| "shortest (Suc fuel) k x =
     (case pick k x of Some v \<Rightarrow> v | None \<Rightarrow> shortest fuel (Suc k) x)"

text \<open>
  The digits \<open>s\<close> of such a decimal without its final zeros, a point after the first
  when there are more, and the exponent \<open>n - 1\<close> of its \<open>n\<close> places.
\<close>

definition exponent_notation :: "nat \<Rightarrow> string" where
  "exponent_notation v =
     (let d = digits v;
          s = rev (dropWhile (\<lambda>c. c = CHR ''0'') (rev d))
      in (case s of [] \<Rightarrow> [] | c # cs \<Rightarrow> if cs = [] then [c] else c # ''.'' @ cs) @
         ''e+'' @ digits (length d - 1))"

definition toString_large :: "rat \<Rightarrow> string" where
  "toString_large x = exponent_notation (shortest (length (digits (nat \<lfloor>x\<rfloor>))) 1 x)"

subsection \<open>\<open>Number.prototype.toFixed\<close>\<close>

text \<open>
  \<open>x.toFixed(f)\<close> as ECMA-262 defines it, for \<open>f\<close> from 0 to 100. A number that is
  not finite gives its \<open>Number::toString\<close>. For a finite one: the integer \<open>n\<close>
  nearest to the magnitude times \<open>10 ^ f\<close> (the larger one of two), its digits padded
  with zeros to \<open>f + 1\<close> places, and a point before the last \<open>f\<close>; from \<open>10 ^ 21\<close>
  on, \<open>Number::toString\<close> of the magnitude; the sign before either.
\<close>

definition toFixed :: "number \<Rightarrow> nat \<Rightarrow> string" where
  "toFixed x f =
     (case x of
        NaN \<Rightarrow> ''NaN''
      | Infinity \<Rightarrow> ''Infinity''
      | NegInfinity \<Rightarrow> ''-Infinity''
      | Finite q \<Rightarrow>
          (let s = (if q < 0 then ''-'' else []);
               y = (if q < 0 then - q else q)
           in if 10 ^ 21 \<le> y then s @ toString_large y
              else
                let n = nat \<lfloor>y * 10 ^ f + 1 / 2\<rfloor>;
                    m = digits n;
                    m = (if f \<noteq> 0 then point_before_last f m else m)
                in s @ m))"

subsection \<open>The view\<close>

text \<open>A card: its key, the text of its heading and the text of its score line.\<close>

record card =
  key :: string
  heading :: string
  score :: string

record button =
  disabled :: bool
  label :: string

record text_input =
  input_value :: string
  required :: bool

record view =
  userId_input :: text_input
  motivation_input :: number
  pressure_input :: number
  credit_level_select :: string
  submit_button :: button
  error_box :: "string option"
  recommendations_section :: "card list option"

text \<open>Lines 140 to 145: the card of one entry.\<close>

definition render_card :: "recommendation \<Rightarrow> card" where
  "render_card rec =
     \<lparr>key = chatroom_id rec,
      heading = ''Chatroom '' @ chatroom_id rec,
      score = ''Score: '' @ toFixed (predicted_score rec) 2\<rparr>"

text \<open>Lines 135 to 149: \<open>recommendations.length > 0 && ...\<close>.\<close>

definition render_recommendations :: "recommendation list \<Rightarrow> card list option" where
  "render_recommendations recs =
     (if length recs > 0 then Some (map render_card recs) else None)"

text \<open>Line 133: \<open>error && ...\<close>; \<open>null\<close> and the empty string are falsy.\<close>

definition render_error :: "string option \<Rightarrow> string option" where
  "render_error e = (case e of None \<Rightarrow> None | Some msg \<Rightarrow> if msg = [] then None else Some msg)"

text \<open>Lines 128 to 130.\<close>

definition render_button :: "bool \<Rightarrow> button" where
  "render_button l =
     \<lparr>disabled = l, label = (if l then ''Loading...'' else ''Get Recommendations'')\<rparr>"

text \<open>The component's output (lines 59 to 152).\<close>

definition App :: "app_state \<Rightarrow> view" where
  "App s =
     \<lparr>userId_input = \<lparr>input_value = userId s, required = True\<rparr>,
      motivation_input = motivation (thresholds s),
      pressure_input = pressure (thresholds s),
      credit_level_select = credit_level (thresholds s),
      submit_button = render_button (loading s),
      error_box = render_error (error s),
      recommendations_section = render_recommendations (recommendations s)\<rparr>"

text \<open>
  What the specification calls two decimal places: an optional sign, the integer part,
  a point and two digits, of the value rounded to the nearest hundredth (half away
  from zero).
\<close>

definition two_decimal_places :: "rat \<Rightarrow> string" where
  "two_decimal_places x =
     (let h = nat \<lfloor>\<bar>x\<bar> * 100 + 1 / 2\<rfloor>
      in (if x < 0 then ''-'' else []) @ digits (h div 100) @ ''.'' @
         [digit_char (h div 10 mod 10), digit_char (h mod 10)])"

section \<open>The component as a transition system\<close>

text \<open>
  A call of \<open>handleSubmit\<close> is suspended at each \<open>await\<close>. At the first it holds the
  \<open>userId\<close> and \<open>thresholds\<close> it closed over; at the second nothing it still reads.
\<close>

datatype pending = AwaitGet string threshold_config | AwaitPost

record config =
  ui :: app_state
  in_flight :: "pending list"

datatype event =
    Submit
  | ChangeUserId string
  | ChangeMotivation number
  | ChangePressure number
  | ChangeCreditLevel string
  | Settle nat "rec_body json_data response settled"

text \<open>
  The browser dispatches the form's submit event through its submit button: not when
  that button is disabled, and not while a required input is empty.
\<close>

definition submit_enabled :: "view \<Rightarrow> bool" where
  "submit_enabled v =
     (\<not> disabled (submit_button v) \<and>
      \<not> (required (userId_input v) \<and> input_value (userId_input v) = []))"

text \<open>The handler up to its first \<open>await\<close>.\<close>

definition start_submit :: "app_state \<Rightarrow> app_state \<times> pending" where
  "start_submit s =
     (fst (perform (AxiosGet (get_url (userId s)))
             (perform (SetError None)
                (perform (SetLoading True)
                   (perform PreventDefault (s, []))))),
      AwaitGet (userId s) (thresholds s))"

text \<open>The handler from one \<open>await\<close> to the next, or to its end.\<close>

fun resume :: "pending \<Rightarrow> rec_body json_data response settled \<Rightarrow> app_state \<Rightarrow> app_state \<times> pending option" where
  "resume (AwaitGet uid th) outcome s =
     (let cr = catch_not_found (after_get outcome (s, [])) in
      case fst cr of
        Normal \<Rightarrow>
          (fst (perform (AxiosPost post_url (request_body uid th)) (snd cr)), Some AwaitPost)
      | _ \<Rightarrow> (fst (snd (finally_block (catch_block cr))), None))"
| "resume AwaitPost outcome s =
     (fst (snd (finally_block (catch_block (after_post outcome (s, []))))), None)"

fun fire :: "event \<Rightarrow> config \<Rightarrow> config option" where
  "fire Submit c =
     (if submit_enabled (App (ui c))
      then Some \<lparr>ui = fst (start_submit (ui c)),
                 in_flight = in_flight c @ [snd (start_submit (ui c))]\<rparr>
      else None)"
| "fire (ChangeUserId v) c = Some (c\<lparr>ui := (ui c)\<lparr>userId := v\<rparr>\<rparr>)"
| "fire (ChangeMotivation v) c =
     Some (c\<lparr>ui := (ui c)\<lparr>thresholds := (thresholds (ui c))\<lparr>motivation := v\<rparr>\<rparr>\<rparr>)"
| "fire (ChangePressure v) c =
     Some (c\<lparr>ui := (ui c)\<lparr>thresholds := (thresholds (ui c))\<lparr>pressure := v\<rparr>\<rparr>\<rparr>)"
| "fire (ChangeCreditLevel v) c =
     Some (c\<lparr>ui := (ui c)\<lparr>thresholds := (thresholds (ui c))\<lparr>credit_level := v\<rparr>\<rparr>\<rparr>)"
| "fire (Settle i outcome) c =
     (if i < length (in_flight c)
      then let sp = resume (in_flight c ! i) outcome (ui c)
           in Some \<lparr>ui = fst sp,
                    in_flight = (case snd sp of
                                   None \<Rightarrow> take i (in_flight c) @ drop (Suc i) (in_flight c)
                                 | Some p \<Rightarrow> (in_flight c)[i := p])\<rparr>
      else None)"

fun fire_all :: "event list \<Rightarrow> config \<Rightarrow> config option" where
  "fire_all [] c = Some c"
| "fire_all (e # es) c =
     (case fire e c of None \<Rightarrow> None | Some c' \<Rightarrow> fire_all es c')"

definition initial_config :: config where
  "initial_config = \<lparr>ui = initial_state, in_flight = []\<rparr>"

text \<open>
  The loading flag tells whether a call is in flight, and there is at most one.
\<close>

definition one_in_flight :: "config \<Rightarrow> bool" where
  "one_in_flight c = ((loading (ui c) = (in_flight c \<noteq> [])) \<and> length (in_flight c) \<le> 1)"

section \<open>The HelloWorld component (frontend/src/pages/HelloWorld/index.js)\<close>

datatype decl_kind = ConstDecl | LetDecl

text \<open>An assignment to a binding: a \<open>const\<close> binding throws a TypeError.\<close>

definition assign :: "decl_kind \<Rightarrow> 'v \<Rightarrow> js_error + 'v" where
  "assign d v =
     (case d of
        ConstDecl \<Rightarrow> Inl \<lparr>response = None, message = ''Assignment to constant variable.''\<rparr>
      | LetDecl \<Rightarrow> Inr v)"

definition hello_url :: string where
  "hello_url = ''http://localhost:8000/helloworld''"

text \<open>Lines 12 to 15: \<open>xx\<close> is declared with \<open>const\<close> on line 6.\<close>

definition HW_try :: "'d response settled \<Rightarrow> effect list \<Rightarrow> completion \<times> effect list" where
  "HW_try outcome es =
     (case outcome of
        Rejected err \<Rightarrow> (Throw err, es @ [AxiosGet hello_url])
      | Resolved resp \<Rightarrow>
          (case assign ConstDecl (data resp) of
             Inl err \<Rightarrow> (Throw err, es @ [AxiosGet hello_url])
           | Inr xx \<Rightarrow> (Normal, es @ [AxiosGet hello_url])))"

text \<open>Lines 16 to 21: the message is computed and dropped, the payload is logged.\<close>

definition HW_catch :: "completion \<times> effect list \<Rightarrow> completion \<times> effect list" where
  "HW_catch ce =
     (case fst ce of
        Throw err \<Rightarrow>
          (let errorMessage = errorMessage err
           in (Normal, snd ce @ [ConsoleError ''Request failed:'' (log_payload err)]))
      | _ \<Rightarrow> ce)"

definition HW_handleSubmit :: "'d response settled \<Rightarrow> completion \<times> effect list" where
  "HW_handleSubmit outcome = HW_catch (HW_try outcome [PreventDefault])"

text \<open>Lines 24 to 28: the output has no state or property to depend on.\<close>

record hello_view =
  h1 :: string

definition HW :: hello_view where
  "HW = \<lparr>h1 = ''Hello World!!!''\<rparr>"

section \<open>Concrete submissions\<close>

text \<open>The double written \<open>0.873\<close>, under the identifier \<open>c1\<close>, and a second card.\<close>

definition c1_card :: recommendation where
  "c1_card =
     \<lparr>chatroom_id = ''c1'', predicted_score = Finite (3931642474694443 / 4503599627370496)\<rparr>"

definition c2_card :: recommendation where
  "c2_card = \<lparr>chatroom_id = ''c2'', predicted_score = Finite (1 / 2)\<rparr>"

definition not_found_error :: js_error where
  "not_found_error =
     \<lparr>response = Some \<lparr>status = 404, data = Some \<lparr>detail = Some ''Not found''\<rparr>\<rparr>,
      message = ''Request failed with status code 404''\<rparr>"

definition created_response :: "rec_body json_data response" where
  "created_response =
     \<lparr>status = 200, data = JsonBody \<lparr>body_recommendations = Some [c1_card]\<rparr>\<rparr>"

definition found_response :: "rec_body json_data response" where
  "found_response =
     \<lparr>status = 200, data = JsonBody \<lparr>body_recommendations = Some [c2_card]\<rparr>\<rparr>"

text \<open>A response with status 200 whose body is the JSON text \<open>null\<close>.\<close>

definition null_response :: "rec_body json_data response" where
  "null_response = \<lparr>status = 200, data = JsonNull\<rparr>"

definition backend_creating :: backend where
  "backend_creating =
     \<lparr>axios_get = (\<lambda>url. Rejected not_found_error),
      axios_post = (\<lambda>url body. Resolved created_response)\<rparr>"

definition backend_created_null :: backend where
  "backend_created_null =
     \<lparr>axios_get = (\<lambda>url. Rejected not_found_error),
      axios_post = (\<lambda>url body. Resolved null_response)\<rparr>"

definition backend_found :: backend where
  "backend_found =
     \<lparr>axios_get = (\<lambda>url. Resolved found_response),
      axios_post = (\<lambda>url body. Resolved created_response)\<rparr>"

definition backend_found_null :: backend where
  "backend_found_null =
     \<lparr>axios_get = (\<lambda>url. Resolved null_response),
      axios_post = (\<lambda>url body. Resolved created_response)\<rparr>"

definition state_u1 :: app_state where
  "state_u1 = initial_state\<lparr>userId := ''u1''\<rparr>"

definition server_error :: js_error where
  "server_error =
     \<lparr>response = Some \<lparr>status = 500, data = Some \<lparr>detail = Some ''Internal Server Error''\<rparr>\<rparr>,
      message = ''Request failed with status code 500''\<rparr>"

definition backend_failing :: backend where
  "backend_failing =
     \<lparr>axios_get = (\<lambda>url. Rejected server_error),
      axios_post = (\<lambda>url body. Resolved created_response)\<rparr>"

definition empty_detail_error :: js_error where
  "empty_detail_error =
     \<lparr>response = Some \<lparr>status = 500, data = Some \<lparr>detail = Some []\<rparr>\<rparr>,
      message = ''Request failed with status code 500''\<rparr>"

definition backend_empty_detail :: backend where
  "backend_empty_detail =
     \<lparr>axios_get = (\<lambda>url. Rejected empty_detail_error),
      axios_post = (\<lambda>url body. Resolved created_response)\<rparr>"

definition backend_create_failing :: backend where
  "backend_create_failing =
     \<lparr>axios_get = (\<lambda>url. Rejected not_found_error),
      axios_post = (\<lambda>url body. Rejected server_error)\<rparr>"

text \<open>A score of \<open>1e21\<close>, which is a double, and the score that \<open>1e400\<close> parses to.\<close>

definition huge_card :: recommendation where
  "huge_card = \<lparr>chatroom_id = ''c1'', predicted_score = Finite (10 ^ 21)\<rparr>"

definition infinite_card :: recommendation where
  "infinite_card = \<lparr>chatroom_id = ''c2'', predicted_score = Infinity\<rparr>"

text \<open>A state that shows the card of an earlier submission.\<close>

definition state_showing :: app_state where
  "state_showing = state_u1\<lparr>recommendations := [c1_card]\<rparr>"

text \<open>The component after \<open>u1\<close> was typed and submitted, the read request in flight.\<close>

definition awaiting_u1 :: config where
  "awaiting_u1 =
     \<lparr>ui = state_u1\<lparr>loading := True\<rparr>,
      in_flight = [AwaitGet ''u1'' (thresholds initial_state)]\<rparr>"

section \<open>The six ways a submission runs\<close>

lemmas handler_defs =
  handleSubmit_def finally_block_def catch_block_def try_block_def create_new_def
  after_post_def read_existing_def after_get_def catch_not_found_def perform_def
  final_state_def trace_def read_recommendations_def

lemma null_property_error_report:
  "response_status null_property_error = None"
  "errorMessage null_property_error = ''Failed to get recommendations''"
  "log_payload null_property_error =
     LogMessage ''Cannot read properties of null (reading 'recommendations')''"
  by (simp_all add: null_property_error_def response_status_def errorMessage_def
      response_detail_def log_payload_def)

lemma submit_read_ok:
  assumes "axios_get srv (get_url (userId s)) = Resolved resp"
    and "data resp = JsonBody b"
  shows "handleSubmit srv s =
     (Return,
      s\<lparr>loading := False, error := None,
        recommendations := or_empty (body_recommendations b)\<rparr>,
      [PreventDefault, SetLoading True, SetError None, AxiosGet (get_url (userId s)),
       SetRecommendations (or_empty (body_recommendations b)), SetLoading False])"
  using assms by (simp add: handler_defs)

lemma submit_read_null:
  assumes "axios_get srv (get_url (userId s)) = Resolved resp"
    and "data resp = JsonNull"
  shows "handleSubmit srv s =
     (Normal,
      s\<lparr>loading := False, error := Some (errorMessage null_property_error)\<rparr>,
      [PreventDefault, SetLoading True, SetError None, AxiosGet (get_url (userId s)),
       SetError (Some (errorMessage null_property_error)),
       ConsoleError ''Request failed:'' (log_payload null_property_error), SetLoading False])"
  using assms by (simp add: handler_defs null_property_error_report)

lemma submit_read_failed:
  assumes "axios_get srv (get_url (userId s)) = Rejected err"
    and "response_status err \<noteq> Some 404"
  shows "handleSubmit srv s =
     (Normal,
      s\<lparr>loading := False, error := Some (errorMessage err)\<rparr>,
      [PreventDefault, SetLoading True, SetError None, AxiosGet (get_url (userId s)),
       SetError (Some (errorMessage err)),
       ConsoleError ''Request failed:'' (log_payload err), SetLoading False])"
  using assms by (simp add: handler_defs)

lemma submit_created:
  assumes "axios_get srv (get_url (userId s)) = Rejected err"
    and "response_status err = Some 404"
    and "axios_post srv post_url (request_body (userId s) (thresholds s)) = Resolved resp"
    and "data resp = JsonBody b"
  shows "handleSubmit srv s =
     (Normal,
      s\<lparr>loading := False, error := None,
        recommendations := or_empty (body_recommendations b)\<rparr>,
      [PreventDefault, SetLoading True, SetError None, AxiosGet (get_url (userId s)),
       AxiosPost post_url (request_body (userId s) (thresholds s)),
       SetRecommendations (or_empty (body_recommendations b)), SetLoading False])"
  using assms by (simp add: handler_defs)

lemma submit_created_null:
  assumes "axios_get srv (get_url (userId s)) = Rejected err"
    and "response_status err = Some 404"
    and "axios_post srv post_url (request_body (userId s) (thresholds s)) = Resolved resp"
    and "data resp = JsonNull"
  shows "handleSubmit srv s =
     (Normal,
      s\<lparr>loading := False, error := Some (errorMessage null_property_error)\<rparr>,
      [PreventDefault, SetLoading True, SetError None, AxiosGet (get_url (userId s)),
       AxiosPost post_url (request_body (userId s) (thresholds s)),
       SetError (Some (errorMessage null_property_error)),
       ConsoleError ''Request failed:'' (log_payload null_property_error), SetLoading False])"
  using assms by (simp add: handler_defs)

lemma submit_create_failed:
  assumes "axios_get srv (get_url (userId s)) = Rejected err"
    and "response_status err = Some 404"
    and "axios_post srv post_url (request_body (userId s) (thresholds s)) = Rejected err'"
  shows "handleSubmit srv s =
     (Normal,
      s\<lparr>loading := False, error := Some (errorMessage err')\<rparr>,
      [PreventDefault, SetLoading True, SetError None, AxiosGet (get_url (userId s)),
       AxiosPost post_url (request_body (userId s) (thresholds s)),
       SetError (Some (errorMessage err')),
       ConsoleError ''Request failed:'' (log_payload err'), SetLoading False])"
  using assms by (simp add: handler_defs)

lemma submit_cases:
  obtains
    (read_ok) resp b where "axios_get srv (get_url (userId s)) = Resolved resp"
      and "data resp = JsonBody b"
  | (read_null) resp where "axios_get srv (get_url (userId s)) = Resolved resp"
      and "data resp = JsonNull"
  | (read_failed) err where "axios_get srv (get_url (userId s)) = Rejected err"
      and "response_status err \<noteq> Some 404"
  | (created) err resp b where "axios_get srv (get_url (userId s)) = Rejected err"
      and "response_status err = Some 404"
      and "axios_post srv post_url (request_body (userId s) (thresholds s)) = Resolved resp"
      and "data resp = JsonBody b"
  | (created_null) err resp where "axios_get srv (get_url (userId s)) = Rejected err"
      and "response_status err = Some 404"
      and "axios_post srv post_url (request_body (userId s) (thresholds s)) = Resolved resp"
      and "data resp = JsonNull"
  | (create_failed) err err' where "axios_get srv (get_url (userId s)) = Rejected err"
      and "response_status err = Some 404"
      and "axios_post srv post_url (request_body (userId s) (thresholds s)) = Rejected err'"
proof (cases "axios_get srv (get_url (userId s))")
  case got: (Resolved resp)
  show ?thesis
  proof (cases "data resp")
    case JsonNull
    with got show ?thesis by (rule read_null)
  next
    case (JsonBody b)
    with got show ?thesis by (rule read_ok)
  qed
next
  case get: (Rejected err)
  show ?thesis
  proof (cases "response_status err = Some 404")
    case False
    with get show ?thesis by (rule read_failed)
  next
    case True
    show ?thesis
    proof (cases "axios_post srv post_url (request_body (userId s) (thresholds s))")
      case posted: (Resolved resp)
      show ?thesis
      proof (cases "data resp")
        case JsonNull
        with get True posted show ?thesis by (rule created_null)
      next
        case (JsonBody b)
        with get True posted show ?thesis by (rule created)
      qed
    next
      case (Rejected err')
      with get True show ?thesis by (rule create_failed)
    qed
  qed
qed

section \<open>The handler in steps\<close>

lemma resume_get_cases:
  "resume (AwaitGet uid th) outcome s =
     (case outcome of
        Resolved resp \<Rightarrow>
          (case data resp of
             JsonBody b \<Rightarrow>
               (s\<lparr>recommendations := or_empty (body_recommendations b), loading := False\<rparr>, None)
           | JsonNull \<Rightarrow>
               (s\<lparr>error := Some (errorMessage null_property_error), loading := False\<rparr>, None))
      | Rejected err \<Rightarrow>
          if response_status err \<noteq> Some 404
          then (s\<lparr>error := Some (errorMessage err), loading := False\<rparr>, None)
          else (s, Some AwaitPost))"
  by (simp add: after_get_def catch_not_found_def catch_block_def finally_block_def
      perform_def read_recommendations_def null_property_error_report
      split: settled.splits json_data.splits)

lemma resume_post_cases:
  "resume AwaitPost outcome s =
     (case outcome of
        Resolved resp \<Rightarrow>
          (case data resp of
             JsonBody b \<Rightarrow>
               (s\<lparr>recommendations := or_empty (body_recommendations b), loading := False\<rparr>, None)
           | JsonNull \<Rightarrow>
               (s\<lparr>error := Some (errorMessage null_property_error), loading := False\<rparr>, None))
      | Rejected err \<Rightarrow> (s\<lparr>error := Some (errorMessage err), loading := False\<rparr>, None))"
  by (simp add: after_post_def catch_block_def finally_block_def perform_def
      read_recommendations_def split: settled.splits json_data.splits)

declare resume.simps [simp del]

lemma start_submit_state:
  "start_submit s = (s\<lparr>loading := True, error := None\<rparr>, AwaitGet (userId s) (thresholds s))"
  by (simp add: start_submit_def perform_def)

text \<open>The handler run to its end is the handler run from one await to the next.\<close>

lemma handleSubmit_by_steps:
  "final_state (handleSubmit srv s) =
     (let sp = start_submit s;
          sp = resume (snd sp) (axios_get srv (get_url (userId s))) (fst sp)
      in case snd sp of
           None \<Rightarrow> fst sp
         | Some p \<Rightarrow>
             fst (resume p (axios_post srv post_url (request_body (userId s) (thresholds s)))
                    (fst sp)))"
proof (cases rule: submit_cases [of srv s])
  case (read_ok resp b)
  from submit_read_ok [OF this] read_ok show ?thesis
    by (simp add: final_state_def start_submit_state resume_get_cases)
next
  case (read_null resp)
  from submit_read_null [OF this] read_null show ?thesis
    by (simp add: final_state_def start_submit_state resume_get_cases)
next
  case (read_failed err)
  from submit_read_failed [OF this] read_failed show ?thesis
    by (simp add: final_state_def start_submit_state resume_get_cases)
next
  case (created err resp b)
  from submit_created [OF this] created show ?thesis
    by (simp add: final_state_def start_submit_state resume_get_cases resume_post_cases)
next
  case (created_null err resp)
  from submit_created_null [OF this] created_null show ?thesis
    by (simp add: final_state_def start_submit_state resume_get_cases resume_post_cases)
next
  case (create_failed err err')
  from submit_create_failed [OF this] create_failed show ?thesis
    by (simp add: final_state_def start_submit_state resume_get_cases resume_post_cases)
qed

lemma resume_loading:
  "loading s \<Longrightarrow> loading (fst (resume p outcome s)) = (snd (resume p outcome s) \<noteq> None)"
  by (cases p)
    (simp_all add: resume_get_cases resume_post_cases split: settled.splits json_data.splits)

lemma submit_needs_idle: "loading (ui c) \<Longrightarrow> fire Submit c = None"
  by (simp add: submit_enabled_def App_def render_button_def)

lemma fire_one_in_flight:
  assumes "one_in_flight c" and "fire e c = Some c'"
  shows "one_in_flight c'"
proof (cases e)
  case Submit
  with assms show ?thesis
    by (auto simp add: one_in_flight_def start_submit_state submit_enabled_def App_def
        render_button_def split: if_splits)
next
  case (Settle i outcome)
  with assms have i: "i < length (in_flight c)"
    by (simp split: if_splits)
  with assms(1) obtain p where p: "in_flight c = [p]" and i0: "i = 0"
    by (cases "in_flight c") (auto simp add: one_in_flight_def)
  with assms(1) have l: "loading (ui c)"
    by (simp add: one_in_flight_def)
  from assms(2) Settle p i0 resume_loading [OF l, of p outcome] show ?thesis
    by (auto simp add: one_in_flight_def Let_def split: option.splits)
qed (use assms in \<open>auto simp add: one_in_flight_def\<close>)

lemma fire_all_one_in_flight:
  "one_in_flight c \<Longrightarrow> fire_all es c = Some c' \<Longrightarrow> one_in_flight c'"
proof (induction es arbitrary: c)
  case Nil
  then show ?case by simp
next
  case (Cons e es)
  then show ?case
    by (auto split: option.splits dest: fire_one_in_flight)
qed

lemma initial_one_in_flight: "one_in_flight initial_config"
  by (simp add: one_in_flight_def initial_config_def initial_state_def)

lemma handleSubmit_ignores_loading: "handleSubmit srv (s\<lparr>loading := b\<rparr>) = handleSubmit srv s"
  by (simp add: handler_defs split: settled.splits completion.splits json_data.splits)

section \<open>The text of a score\<close>

lemma digits_small: "n < 10 \<Longrightarrow> digits n = [digit_char n]"
  by (simp add: digits.simps)

lemma digits_step: "10 \<le> n \<Longrightarrow> digits n = digits (n div 10) @ [digit_char (n mod 10)]"
  by (subst digits.simps) simp

lemma digits_hundreds:
  assumes "100 \<le> n"
  shows "digits n = digits (n div 100) @ [digit_char (n div 10 mod 10), digit_char (n mod 10)]"
proof -
  have "10 \<le> n" and "10 \<le> n div 10"
    using assms by auto
  then have "digits n = (digits (n div 10 div 10) @ [digit_char (n div 10 mod 10)]) @ [digit_char (n mod 10)]"
    by (simp add: digits_step)
  moreover have "n div 10 div 10 = n div 100"
    by (simp add: div_mult2_eq)
  ultimately show ?thesis by simp
qed

lemma digits_nonempty: "digits n \<noteq> []"
  by (subst digits.simps) simp

lemma pad_point:
  "point_before_last 2 (digits n) =
   digits (n div 100) @ ''.'' @ [digit_char (n div 10 mod 10), digit_char (n mod 10)]"
proof -
  consider "n < 10" | "10 \<le> n" "n < 100" | "100 \<le> n" by linarith
  then show ?thesis
  proof cases
    case 1
    then show ?thesis
      by (simp add: point_before_last_def digits_small Let_def numeral_3_eq_3 digit_char_def)
  next
    case 2
    then have "n div 10 < 10" by simp
    with 2 show ?thesis
      by (simp add: point_before_last_def digits_step digits_small Let_def digit_char_def)
  next
    case 3
    then show ?thesis
      by (simp add: point_before_last_def digits_hundreds Let_def digits_nonempty)
  qed
qed

lemma toFixed_two_decimal_places:
  assumes "\<bar>q\<bar> < 10 ^ 21"
  shows "toFixed (Finite q) 2 = two_decimal_places q"
proof (cases "q < 0")
  case True
  with assms have "\<not> 10 ^ 21 \<le> - q" and "\<bar>q\<bar> = - q" by simp_all
  with True show ?thesis
    by (simp add: toFixed_def two_decimal_places_def Let_def pad_point)
next
  case False
  with assms have "\<not> 10 ^ 21 \<le> q" and "\<bar>q\<bar> = q" by simp_all
  with False show ?thesis
    by (simp add: toFixed_def two_decimal_places_def Let_def pad_point)
qed

lemma toFixed_large:
  assumes "10 ^ 21 \<le> \<bar>q\<bar>"
  shows "toFixed (Finite q) 2 = (if q < 0 then ''-'' else []) @ toString_large \<bar>q\<bar>"
proof (cases "q < 0")
  case True
  with assms have "10 ^ 21 \<le> - q" and "\<bar>q\<bar> = - q" by simp_all
  with True show ?thesis
    by (simp add: toFixed_def Let_def)
next
  case False
  with assms have "10 ^ 21 \<le> q" and "\<bar>q\<bar> = q" by simp_all
  with False show ?thesis
    by (simp add: toFixed_def Let_def)
qed

text \<open>The text of a score, by the kind of number.\<close>

lemma toFixed_text:
  "toFixed x 2 =
     (case x of
        Finite q \<Rightarrow>
          if \<bar>q\<bar> < 10 ^ 21 then two_decimal_places q
          else (if q < 0 then ''-'' else []) @ toString_large \<bar>q\<bar>
      | Infinity \<Rightarrow> ''Infinity''
      | NegInfinity \<Rightarrow> ''-Infinity''
      | NaN \<Rightarrow> ''NaN'')"
proof (cases x)
  case (Finite q)
  then show ?thesis
    by (cases "\<bar>q\<bar> < 10 ^ 21") (simp_all add: toFixed_two_decimal_places toFixed_large)
qed (simp_all add: toFixed_def)

lemma toString_large_exponent:
  "\<exists>m. toString_large y =
     m @ ''e+'' @ digits (length (digits (shortest (length (digits (nat \<lfloor>y\<rfloor>))) 1 y)) - 1)"
  by (simp add: toString_large_def exponent_notation_def Let_def)

lemma c1_score: "two_decimal_places (3931642474694443 / 4503599627370496) = ''0.87''"
proof -
  have "\<lfloor>\<bar>3931642474694443 / 4503599627370496 :: rat\<bar> * 100 + 1 / 2\<rfloor> = 87"
    by (rule floor_unique) simp_all
  then show ?thesis
    unfolding two_decimal_places_def
    by (simp add: digits_small digit_char_def)
qed

lemma bits_zero: "bits 0 = 0"
  by (simp add: bits.simps)

lemma bits_step: "0 < n \<Longrightarrow> bits n = Suc (bits (n div 2))"
  by (subst bits.simps) simp

text \<open>\<open>Number::toString\<close> at \<open>1e21\<close>: one digit, which rounds to the double itself.\<close>

lemma huge_digits: "digits 1000000000000000000000 = ''1000000000000000000000''"
  by (simp add: digits_step digits_small digit_char_def)

lemma huge_ulp: "ulp 1000000000000000000000 = 131072"
  by (simp add: ulp_def bits_step bits_zero)

lemma huge_significand: "\<lfloor>(1000000000000000000000 :: rat) / 131072\<rfloor> = 7629394531250000"
  by (rule floor_unique) simp_all

lemma huge_pick: "pick (Suc 0) 1000000000000000000000 = Some 1000000000000000000000"
proof -
  have "rounds_to 1000000000000000000000 1000000000000000000000"
    unfolding rounds_to_def huge_ulp Let_def huge_significand by simp
  moreover have "\<not> rounds_to 2000000000000000000000 1000000000000000000000"
    unfolding rounds_to_def huge_ulp Let_def huge_significand by simp
  ultimately show ?thesis
    by (simp add: pick_def huge_digits Let_def)
qed

lemma huge_text: "toString_large 1000000000000000000000 = ''1e+21''"
  by (simp add: toString_large_def huge_digits huge_pick exponent_notation_def Let_def
      digits_step digits_small digit_char_def)

lemma huge_two_decimal_places:
  "two_decimal_places 1000000000000000000000 = ''1000000000000000000000.00''"
proof -
  have "\<lfloor>\<bar>1000000000000000000000 :: rat\<bar> * 100 + 1 / 2\<rfloor> = 100000000000000000000000"
    by (rule floor_unique) simp_all
  then show ?thesis
    unfolding two_decimal_places_def
    by (simp add: huge_digits digit_char_def)
qed

lemma errorMessage_nonempty: "errorMessage err \<noteq> []"
  by (simp add: errorMessage_def split: option.splits)

text \<open>\<open>Number::toString\<close> at \<open>2 ^ 70\<close>: seventeen digits, as the engines print it.\<close>

lemma two_pow_70_text: "toString_large 1180591620717411303424 = ''1.1805916207174113e+21''"
proof -
  have d: "digits 1180591620717411303424 = ''1180591620717411303424''"
    by (simp add: digits_step digits_small digit_char_def)
  have u: "ulp 1180591620717411303424 = 262144"
    by (simp add: ulp_def bits_step bits_zero)
  have m: "\<lfloor>(1180591620717411303424 :: rat) / 262144\<rfloor> = 4503599627370496"
    by (rule floor_unique) simp_all
  have r: "rounds_to v 1180591620717411303424 =
      (1180591620717411303424 - 65536 \<le> v \<and> v \<le> 1180591620717411303424 + 131072)" for v
    unfolding rounds_to_def u Let_def m by simp
  show ?thesis
    by (simp add: toString_large_def d pick_def r Let_def exponent_notation_def
        digits_step digits_small digit_char_def)
qed

section \<open>Properties of a submission\<close>

text \<open>
  Claim C1, as the code has it. When the read request fails with status 404, the handler
  issues the create request exactly once, with the body \<open>{ user_id: userId, filters:
  { top_k: 5 }, thresholds }\<close> of the current user identifier and thresholds. When the
  creation succeeds with a body that is not \<open>null\<close>, the recommendations are replaced,
  once, by the list of the body, or by the empty list when the body has none, and no
  error is set. When it succeeds with the body \<open>null\<close>, reading the list throws: the
  recommendations are not set and the error is the fallback message.
\<close>

theorem not_found_creates_once:
  assumes "axios_get srv (get_url (userId s)) = Rejected err"
    and "map_option status (response err) = Some 404"
  shows "posts (trace (handleSubmit srv s)) =
           [(''http://localhost:8000/recommendations'',
             \<lparr>user_id = userId s, filters = \<lparr>top_k = 5\<rparr>, body_thresholds = thresholds s\<rparr>)] \<and>
         (\<forall>resp b. axios_post srv ''http://localhost:8000/recommendations''
                     \<lparr>user_id = userId s, filters = \<lparr>top_k = 5\<rparr>,
                      body_thresholds = thresholds s\<rparr> = Resolved resp \<and>
                   data resp = JsonBody b \<longrightarrow>
            recommendations (final_state (handleSubmit srv s)) =
              (case body_recommendations b of None \<Rightarrow> [] | Some rs \<Rightarrow> rs) \<and>
            updates (trace (handleSubmit srv s)) =
              [case body_recommendations b of None \<Rightarrow> [] | Some rs \<Rightarrow> rs] \<and>
            error (final_state (handleSubmit srv s)) = None) \<and>
         (\<forall>resp. axios_post srv ''http://localhost:8000/recommendations''
                   \<lparr>user_id = userId s, filters = \<lparr>top_k = 5\<rparr>,
                    body_thresholds = thresholds s\<rparr> = Resolved resp \<and>
                 data resp = JsonNull \<longrightarrow>
            recommendations (final_state (handleSubmit srv s)) = recommendations s \<and>
            updates (trace (handleSubmit srv s)) = [] \<and>
            error (final_state (handleSubmit srv s)) = Some ''Failed to get recommendations'')"
proof -
  have st: "response_status err = Some 404"
    using assms(2) by (simp add: response_status_def)
  show ?thesis
  proof (cases rule: submit_cases [of srv s])
    case (created e resp b)
    from submit_created [OF this] created show ?thesis
      by (simp add: trace_def final_state_def post_url_def request_body_def or_empty_def)
  next
    case (created_null e resp)
    from submit_created_null [OF this] created_null show ?thesis
      by (simp add: trace_def final_state_def post_url_def request_body_def
          null_property_error_report)
  next
    case (create_failed e e')
    from submit_create_failed [OF this] create_failed show ?thesis
      by (simp add: trace_def final_state_def post_url_def request_body_def)
  qed (use assms(1) st in simp_all)
qed

theorem not_found_creates_once_witness:
  "axios_get backend_creating (get_url (userId state_u1)) = Rejected not_found_error \<and>
   map_option status (response not_found_error) = Some 404 \<and>
   posts (trace (handleSubmit backend_creating state_u1)) =
     [(''http://localhost:8000/recommendations'',
       \<lparr>user_id = ''u1'', filters = \<lparr>top_k = 5\<rparr>,
        body_thresholds =
          \<lparr>motivation = Finite (3602879701896397 / 36028797018963968),
           pressure = Finite (1 / 2), credit_level = ''partial''\<rparr>\<rparr>)] \<and>
   recommendations (final_state (handleSubmit backend_creating state_u1)) = [c1_card] \<and>
   updates (trace (handleSubmit backend_creating state_u1)) = [[c1_card]] \<and>
   recommendations (final_state (handleSubmit backend_created_null state_u1)) = [] \<and>
   error (final_state (handleSubmit backend_created_null state_u1)) =
     Some ''Failed to get recommendations''"
proof -
  have g: "axios_get backend_creating (get_url (userId state_u1)) = Rejected not_found_error"
      "axios_get backend_created_null (get_url (userId state_u1)) = Rejected not_found_error"
    by (simp_all add: backend_creating_def backend_created_null_def)
  have st: "map_option status (response not_found_error) = Some 404"
    by (simp add: not_found_error_def)
  have p: "axios_post backend_creating ''http://localhost:8000/recommendations''
             \<lparr>user_id = userId state_u1, filters = \<lparr>top_k = 5\<rparr>,
              body_thresholds = thresholds state_u1\<rparr> = Resolved created_response"
      "data created_response = JsonBody \<lparr>body_recommendations = Some [c1_card]\<rparr>"
    by (simp_all add: backend_creating_def created_response_def)
  have n: "axios_post backend_created_null ''http://localhost:8000/recommendations''
             \<lparr>user_id = userId state_u1, filters = \<lparr>top_k = 5\<rparr>,
              body_thresholds = thresholds state_u1\<rparr> = Resolved null_response"
      "data null_response = JsonNull"
    by (simp_all add: backend_created_null_def null_response_def)
  from not_found_creates_once [OF g(1) st] not_found_creates_once [OF g(2) st] p n g st
  show ?thesis
    by (simp add: state_u1_def initial_state_def)
qed

text \<open>
  The claim C1 as first stated, with the list replaced on every successful creation,
  fails at a creation answered with status 200 and the body \<open>null\<close>: the card shown
  before stays, where the claim has the empty list.
\<close>

theorem not_found_creates_once_counterexample:
  "axios_get backend_created_null (get_url (userId state_showing)) = Rejected not_found_error \<and>
   map_option status (response not_found_error) = Some 404 \<and>
   axios_post backend_created_null ''http://localhost:8000/recommendations''
     \<lparr>user_id = userId state_showing, filters = \<lparr>top_k = 5\<rparr>,
      body_thresholds = thresholds state_showing\<rparr> = Resolved null_response \<and>
   updates (trace (handleSubmit backend_created_null state_showing)) = [] \<and>
   recommendations (final_state (handleSubmit backend_created_null state_showing)) = [c1_card] \<and>
   recommendations (final_state (handleSubmit backend_created_null state_showing)) \<noteq> []"
  by (simp add: handler_defs backend_created_null_def not_found_error_def null_response_def
      response_status_def state_showing_def)

text \<open>
  Claim C2, as the code has it. When the read request succeeds, no create request is
  issued. With a body that is not \<open>null\<close> the recommendations are replaced, once, by
  the list of the body, or by the empty list when the body has none, and no error is
  set. With the body \<open>null\<close>, reading the list throws: the recommendations are not
  set and the error is the fallback message.
\<close>

theorem found_never_creates:
  assumes "axios_get srv (get_url (userId s)) = Resolved resp"
  shows "posts (trace (handleSubmit srv s)) = [] \<and>
         (\<forall>b. data resp = JsonBody b \<longrightarrow>
            updates (trace (handleSubmit srv s)) =
              [case body_recommendations b of None \<Rightarrow> [] | Some rs \<Rightarrow> rs] \<and>
            recommendations (final_state (handleSubmit srv s)) =
              (case body_recommendations b of None \<Rightarrow> [] | Some rs \<Rightarrow> rs) \<and>
            error (final_state (handleSubmit srv s)) = None) \<and>
         (data resp = JsonNull \<longrightarrow>
            updates (trace (handleSubmit srv s)) = [] \<and>
            recommendations (final_state (handleSubmit srv s)) = recommendations s \<and>
            error (final_state (handleSubmit srv s)) = Some ''Failed to get recommendations'')"
proof (cases "data resp")
  case JsonNull
  from submit_read_null [OF assms this] JsonNull show ?thesis
    by (simp add: trace_def final_state_def null_property_error_report)
next
  case (JsonBody b)
  from submit_read_ok [OF assms this] JsonBody show ?thesis
    by (simp add: trace_def final_state_def or_empty_def)
qed

theorem found_never_creates_witness:
  "axios_get backend_found (get_url (userId state_showing)) = Resolved found_response \<and>
   data found_response = JsonBody \<lparr>body_recommendations = Some [c2_card]\<rparr> \<and>
   recommendations state_showing = [c1_card] \<and>
   posts (trace (handleSubmit backend_found state_showing)) = [] \<and>
   updates (trace (handleSubmit backend_found state_showing)) = [[c2_card]] \<and>
   recommendations (final_state (handleSubmit backend_found state_showing)) = [c2_card] \<and>
   axios_get backend_found_null (get_url (userId state_showing)) = Resolved null_response \<and>
   data null_response = JsonNull \<and>
   posts (trace (handleSubmit backend_found_null state_showing)) = [] \<and>
   recommendations (final_state (handleSubmit backend_found_null state_showing)) = [c1_card]"
proof -
  have g: "axios_get backend_found (get_url (userId state_showing)) = Resolved found_response"
    by (simp add: backend_found_def)
  have d: "data found_response = JsonBody \<lparr>body_recommendations = Some [c2_card]\<rparr>"
    by (simp add: found_response_def)
  have n: "axios_get backend_found_null (get_url (userId state_showing)) = Resolved null_response"
    by (simp add: backend_found_null_def)
  have e: "data null_response = JsonNull"
    by (simp add: null_response_def)
  have r: "recommendations state_showing = [c1_card]"
    by (simp add: state_showing_def)
  from found_never_creates [OF g] found_never_creates [OF n] g d n e r show ?thesis
    by simp
qed

text \<open>
  The claim C2 as first stated, with the list replaced on every successful read, fails at
  a read answered with status 200 and the body \<open>null\<close>: the card shown before stays
  and an error is set.
\<close>

theorem found_never_creates_counterexample:
  "axios_get backend_found_null (get_url (userId state_showing)) = Resolved null_response \<and>
   status null_response = 200 \<and>
   updates (trace (handleSubmit backend_found_null state_showing)) = [] \<and>
   recommendations (final_state (handleSubmit backend_found_null state_showing)) = [c1_card] \<and>
   recommendations (final_state (handleSubmit backend_found_null state_showing)) \<noteq> [] \<and>
   error (final_state (handleSubmit backend_found_null state_showing)) =
     Some ''Failed to get recommendations''"
  by (simp add: handler_defs backend_found_null_def null_response_def
      null_property_error_report state_showing_def)

text \<open>
  Claim C3. When the read request fails with a status other than 404, or with no
  response at all, no create request is issued, the error is set to a message, and the
  recommendations are never set: they keep the value they had before the submission.
\<close>

theorem other_failure_no_create:
  assumes "axios_get srv (get_url (userId s)) = Rejected err"
    and "map_option status (response err) \<noteq> Some 404"
  shows "posts (trace (handleSubmit srv s)) = [] \<and>
         error (final_state (handleSubmit srv s)) \<noteq> None \<and>
         updates (trace (handleSubmit srv s)) = [] \<and>
         recommendations (final_state (handleSubmit srv s)) = recommendations s"
proof -
  have "response_status err \<noteq> Some 404"
    using assms(2) by (simp add: response_status_def)
  from submit_read_failed [OF assms(1) this] show ?thesis
    by (simp add: trace_def final_state_def)
qed

theorem other_failure_no_create_witness:
  "axios_get backend_failing (get_url (userId state_u1)) = Rejected server_error \<and>
   map_option status (response server_error) \<noteq> Some 404 \<and>
   posts (trace (handleSubmit backend_failing state_u1)) = [] \<and>
   error (final_state (handleSubmit backend_failing state_u1)) \<noteq> None \<and>
   recommendations (final_state (handleSubmit backend_failing state_u1)) = []"
proof -
  have g: "axios_get backend_failing (get_url (userId state_u1)) = Rejected server_error"
    by (simp add: backend_failing_def)
  have st: "map_option status (response server_error) \<noteq> Some 404"
    by (simp add: server_error_def)
  from other_failure_no_create [OF g st] g st show ?thesis
    by (simp add: state_u1_def initial_state_def)
qed

text \<open>
  Claim C4. Every submission begins by setting \<open>loading\<close> to true and \<open>error\<close>
  to null (after \<open>preventDefault\<close>, before any request), and on every outcome it
  completes without throwing, its last effect clears \<open>loading\<close>, and \<open>loading\<close>
  is false at the end.
\<close>

theorem loading_bracket:
  "take 3 (trace (handleSubmit srv s)) = [PreventDefault, SetLoading True, SetError None] \<and>
   last (trace (handleSubmit srv s)) = SetLoading False \<and>
   loading (final_state (handleSubmit srv s)) = False \<and>
   fst (handleSubmit srv s) \<in> {Normal, Return}"
proof (cases rule: submit_cases [of srv s])
  case (read_ok resp b)
  from submit_read_ok [OF this] show ?thesis
    by (simp add: trace_def final_state_def)
next
  case (read_null resp)
  from submit_read_null [OF this] show ?thesis
    by (simp add: trace_def final_state_def)
next
  case (read_failed err)
  from submit_read_failed [OF this] show ?thesis
    by (simp add: trace_def final_state_def)
next
  case (created err resp b)
  from submit_created [OF this] show ?thesis
    by (simp add: trace_def final_state_def)
next
  case (created_null err resp)
  from submit_created_null [OF this] show ?thesis
    by (simp add: trace_def final_state_def)
next
  case (create_failed err err')
  from submit_create_failed [OF this] show ?thesis
    by (simp add: trace_def final_state_def)
qed

text \<open>
  Claim C5, as the code has it. The submit button is rendered disabled exactly when
  \<open>loading\<close> is true, so from a state with \<open>loading = true\<close> the form offers no
  submit step; in every state the component reaches, \<open>loading\<close> is true exactly
  while a call is in flight, and at most one is. The handler itself never reads the
  flag: called from a state with \<open>loading = true\<close> it runs as from the same state
  with \<open>loading = false\<close>.
\<close>

theorem submit_blocked_while_loading:
  "(loading (ui c) \<longrightarrow> fire Submit c = None) \<and>
   (fire_all es initial_config = Some c \<longrightarrow>
      loading (ui c) = (in_flight c \<noteq> []) \<and> length (in_flight c) \<le> 1) \<and>
   disabled (submit_button (App s)) = loading s \<and>
   handleSubmit srv (s\<lparr>loading := True\<rparr>) = handleSubmit srv s"
proof (intro conjI impI)
  assume "loading (ui c)"
  then show "fire Submit c = None" by (rule submit_needs_idle)
next
  assume "fire_all es initial_config = Some c"
  from fire_all_one_in_flight [OF initial_one_in_flight this]
  show "loading (ui c) = (in_flight c \<noteq> [])" and "length (in_flight c) \<le> 1"
    by (simp_all add: one_in_flight_def)
next
  show "disabled (submit_button (App s)) = loading s"
    by (simp add: App_def render_button_def)
next
  show "handleSubmit srv (s\<lparr>loading := True\<rparr>) = handleSubmit srv s"
    by (rule handleSubmit_ignores_loading)
qed

theorem submit_blocked_while_loading_witness:
  "loading (ui awaiting_u1) \<and> fire Submit awaiting_u1 = None \<and>
   fire_all [ChangeUserId ''u1'', Submit] initial_config = Some awaiting_u1 \<and>
   in_flight awaiting_u1 \<noteq> [] \<and> length (in_flight awaiting_u1) \<le> 1"
proof -
  have l: "loading (ui awaiting_u1)"
    by (simp add: awaiting_u1_def)
  have r: "fire_all [ChangeUserId ''u1'', Submit] initial_config = Some awaiting_u1"
    by (simp add: awaiting_u1_def initial_config_def state_u1_def initial_state_def
        submit_enabled_def App_def render_button_def start_submit_state)
  from submit_blocked_while_loading [of awaiting_u1 "[ChangeUserId ''u1'', Submit]"] l r
  show ?thesis by simp
qed

text \<open>
  The claim C5 as first stated, with a further submit step possible from every state
  with \<open>loading = true\<close>, fails in the state reached by typing \<open>u1\<close> and
  submitting: the button is disabled and a second submit event does not occur.
\<close>

theorem submit_blocked_while_loading_counterexample:
  "loading (ui awaiting_u1) \<and> fire Submit awaiting_u1 = None \<and>
   fire_all [ChangeUserId ''u1'', Submit, Submit] initial_config = None"
  by (simp add: awaiting_u1_def initial_config_def state_u1_def initial_state_def
      submit_enabled_def App_def render_button_def start_submit_state)

text \<open>
  Claim C6, as the code has it. A failure that reaches the outer handler (a read failure
  other than 404, a failure of the creation, or the TypeError of a \<open>null\<close> body) sets
  the error to \<open>Error: \<close> followed by the detail of the failure body when that detail
  is present and not empty, and to \<open>Failed to get recommendations\<close> otherwise, and
  logs the failure body, or the error's message when there is no body, once. At a detail
  that is present and empty the message is the fallback, not \<open>Error: \<close>.
\<close>

theorem outer_handler_message:
  assumes "(axios_get srv (get_url (userId s)) = Rejected err \<and>
            map_option status (response err) \<noteq> Some 404) \<or>
           (\<exists>resp. axios_get srv (get_url (userId s)) = Resolved resp \<and>
                   data resp = JsonNull \<and> err = null_property_error) \<or>
           (\<exists>e. axios_get srv (get_url (userId s)) = Rejected e \<and>
                map_option status (response e) = Some 404 \<and>
                (axios_post srv ''http://localhost:8000/recommendations''
                   \<lparr>user_id = userId s, filters = \<lparr>top_k = 5\<rparr>,
                    body_thresholds = thresholds s\<rparr> = Rejected err \<or>
                 (\<exists>resp. axios_post srv ''http://localhost:8000/recommendations''
                            \<lparr>user_id = userId s, filters = \<lparr>top_k = 5\<rparr>,
                             body_thresholds = thresholds s\<rparr> = Resolved resp \<and>
                          data resp = JsonNull \<and> err = null_property_error)))"
  shows "error (final_state (handleSubmit srv s)) =
           Some (case response_detail err of
                   None \<Rightarrow> ''Failed to get recommendations''
                 | Some d \<Rightarrow> if d = [] then ''Failed to get recommendations''
                             else ''Error: '' @ d) \<and>
         logged (trace (handleSubmit srv s)) =
           [(''Request failed:'',
             case response err of
               None \<Rightarrow> LogMessage (message err)
             | Some r \<Rightarrow> (case data r of None \<Rightarrow> LogMessage (message err) | Some b \<Rightarrow> LogData b))]"
proof (cases rule: submit_cases [of srv s])
  case (read_ok resp b)
  with assms show ?thesis by auto
next
  case (read_null resp)
  with assms have e: "err = null_property_error" by auto
  from submit_read_null [OF read_null] show ?thesis
    unfolding e
    by (simp add: trace_def final_state_def errorMessage_def log_payload_def
        null_property_error_def response_detail_def)
next
  case (read_failed e)
  with assms have "e = err" by (auto simp add: response_status_def)
  with read_failed have g: "axios_get srv (get_url (userId s)) = Rejected err"
    and st: "response_status err \<noteq> Some 404" by simp_all
  from submit_read_failed [OF g st] show ?thesis
    by (simp add: trace_def final_state_def errorMessage_def log_payload_def)
next
  case (created e resp b)
  with assms show ?thesis
    by (auto simp add: response_status_def post_url_def request_body_def)
next
  case (created_null e resp)
  with assms have e: "err = null_property_error"
    by (auto simp add: response_status_def post_url_def request_body_def)
  from submit_created_null [OF created_null] show ?thesis
    unfolding e
    by (simp add: trace_def final_state_def errorMessage_def log_payload_def
        null_property_error_def response_detail_def)
next
  case (create_failed e e')
  with assms have "e' = err"
    by (auto simp add: response_status_def post_url_def request_body_def)
  with create_failed
  have p: "axios_post srv post_url (request_body (userId s) (thresholds s)) = Rejected err"
    by simp
  from submit_create_failed [OF create_failed(1,2) p] show ?thesis
    by (simp add: trace_def final_state_def errorMessage_def log_payload_def)
qed

theorem outer_handler_message_witness:
  "axios_get backend_failing (get_url (userId state_u1)) = Rejected server_error \<and>
   map_option status (response server_error) \<noteq> Some 404 \<and>
   error (final_state (handleSubmit backend_failing state_u1)) =
     Some ''Error: Internal Server Error'' \<and>
   logged (trace (handleSubmit backend_failing state_u1)) =
     [(''Request failed:'', LogData \<lparr>detail = Some ''Internal Server Error''\<rparr>)]"
proof -
  have g: "axios_get backend_failing (get_url (userId state_u1)) = Rejected server_error \<and>
           map_option status (response server_error) \<noteq> Some 404"
    by (simp add: backend_failing_def server_error_def)
  from outer_handler_message [of backend_failing state_u1 server_error, OF disjI1, OF g] g
  show ?thesis
    by (simp add: server_error_def response_detail_def)
qed

text \<open>
  The claim C6 as first stated, with the detail only required to be present, fails at a
  read failure with status 500 whose body has the detail \<open>""\<close>: the error is the
  fallback message.
\<close>

theorem outer_handler_message_counterexample:
  "axios_get backend_empty_detail (get_url (userId state_u1)) = Rejected empty_detail_error \<and>
   response_detail empty_detail_error = Some [] \<and>
   error (final_state (handleSubmit backend_empty_detail state_u1)) \<noteq> Some (''Error: '' @ []) \<and>
   error (final_state (handleSubmit backend_empty_detail state_u1)) =
     Some ''Failed to get recommendations''"
  by (simp add: handler_defs backend_empty_detail_def empty_detail_error_def
      response_status_def response_detail_def errorMessage_def)

text \<open>
  Claim C7, as the code has it. The renderer is a function of the recommendations alone:
  for the empty list it renders no section, and for a list that is not empty one card
  for each entry, in order, with the entry's \<open>chatroom_id\<close> as key, the heading
  \<open>Chatroom\<close> and the identifier, and \<open>Score:\<close> and the score as \<open>toFixed(2)\<close>
  writes it: to two decimal places when the score is finite and below \<open>10 ^ 21\<close> in
  magnitude (the double \<open>0.873\<close> as \<open>0.87\<close>), in the exponent notation of
  \<open>Number::toString\<close> from \<open>10 ^ 21\<close> on (\<open>1e21\<close> as \<open>1e+21\<close>), and as
  \<open>Infinity\<close>, \<open>-Infinity\<close> or \<open>NaN\<close> when it is not finite.
\<close>

theorem renderer_projection:
  "recommendations_section (App (s\<lparr>recommendations := []\<rparr>)) = None \<and>
   (recs \<noteq> [] \<longrightarrow>
      recommendations_section (App (s\<lparr>recommendations := recs\<rparr>)) =
        Some (map (\<lambda>r. \<lparr>key = chatroom_id r, heading = ''Chatroom '' @ chatroom_id r,
                        score = ''Score: '' @
                          (case predicted_score r of
                             Finite q \<Rightarrow>
                               if \<bar>q\<bar> < 10 ^ 21 then two_decimal_places q
                               else (if q < 0 then ''-'' else []) @ toString_large \<bar>q\<bar>
                           | Infinity \<Rightarrow> ''Infinity''
                           | NegInfinity \<Rightarrow> ''-Infinity''
                           | NaN \<Rightarrow> ''NaN'')\<rparr>) recs)) \<and>
   (\<exists>m. toString_large y =
      m @ ''e+'' @ digits (length (digits (shortest (length (digits (nat \<lfloor>y\<rfloor>))) 1 y)) - 1))"
proof (intro conjI impI)
  show "recommendations_section (App (s\<lparr>recommendations := []\<rparr>)) = None"
    by (simp add: App_def render_recommendations_def)
next
  assume "recs \<noteq> []"
  then have "render_recommendations recs = Some (map render_card recs)"
    by (simp add: render_recommendations_def)
  moreover have "recommendations_section (App (s\<lparr>recommendations := recs\<rparr>)) =
      render_recommendations recs"
    by (simp add: App_def)
  ultimately show "recommendations_section (App (s\<lparr>recommendations := recs\<rparr>)) =
      Some (map (\<lambda>r. \<lparr>key = chatroom_id r, heading = ''Chatroom '' @ chatroom_id r,
                      score = ''Score: '' @
                        (case predicted_score r of
                           Finite q \<Rightarrow>
                             if \<bar>q\<bar> < 10 ^ 21 then two_decimal_places q
                             else (if q < 0 then ''-'' else []) @ toString_large \<bar>q\<bar>
                         | Infinity \<Rightarrow> ''Infinity''
                         | NegInfinity \<Rightarrow> ''-Infinity''
                         | NaN \<Rightarrow> ''NaN'')\<rparr>) recs)"
    by (simp add: render_card_def toFixed_text)
next
  show "\<exists>m. toString_large y =
      m @ ''e+'' @ digits (length (digits (shortest (length (digits (nat \<lfloor>y\<rfloor>))) 1 y)) - 1)"
    by (rule toString_large_exponent)
qed

theorem renderer_projection_witness:
  "[c1_card, huge_card] \<noteq> [] \<and>
   recommendations_section (App (initial_state\<lparr>recommendations := [c1_card, huge_card]\<rparr>)) =
     Some [\<lparr>key = ''c1'', heading = ''Chatroom c1'', score = ''Score: 0.87''\<rparr>,
           \<lparr>key = ''c1'', heading = ''Chatroom c1'', score = ''Score: 1e+21''\<rparr>]"
  using renderer_projection [of initial_state "[c1_card, huge_card]"]
  by (simp add: c1_card_def huge_card_def c1_score huge_text)

text \<open>
  The claim C7 as first stated, with two decimal places for every score, fails at the
  score \<open>1e21\<close>, shown as \<open>1e+21\<close> and not as \<open>1000000000000000000000.00\<close>,
  and at the score that \<open>1e400\<close> parses to, shown as \<open>Infinity\<close>.
\<close>

theorem renderer_projection_counterexample:
  "recommendations_section
     (App (initial_state\<lparr>recommendations := [huge_card, infinite_card]\<rparr>)) =
     Some [\<lparr>key = ''c1'', heading = ''Chatroom c1'', score = ''Score: 1e+21''\<rparr>,
           \<lparr>key = ''c2'', heading = ''Chatroom c2'', score = ''Score: Infinity''\<rparr>] \<and>
   two_decimal_places (10 ^ 21) = ''1000000000000000000000.00'' \<and>
   toFixed (Finite (10 ^ 21)) 2 \<noteq> two_decimal_places (10 ^ 21)"
  by (simp add: App_def render_recommendations_def render_card_def toFixed_text
      huge_card_def infinite_card_def huge_text huge_two_decimal_places)

text \<open>
  Claim C8, as the code has it. When the read request fails with status 500, the error
  box shows the message (\<open>Error:\<close> and the detail, or the fallback), no create request
  is issued, and the recommendations section is the one shown before the submission:
  no card when the list was empty before it.
\<close>

theorem server_error_shown:
  assumes "axios_get srv (get_url (userId s)) = Rejected err"
    and "map_option status (response err) = Some 500"
  shows "error_box (App (final_state (handleSubmit srv s))) =
           Some (case response_detail err of
                   None \<Rightarrow> ''Failed to get recommendations''
                 | Some d \<Rightarrow> if d = [] then ''Failed to get recommendations''
                             else ''Error: '' @ d) \<and>
         posts (trace (handleSubmit srv s)) = [] \<and>
         recommendations_section (App (final_state (handleSubmit srv s))) =
           recommendations_section (App s) \<and>
         (recommendations s = [] \<longrightarrow>
            recommendations_section (App (final_state (handleSubmit srv s))) = None)"
proof -
  have "response_status err \<noteq> Some 404"
    using assms(2) by (auto simp add: response_status_def)
  from submit_read_failed [OF assms(1) this] errorMessage_nonempty [of err] show ?thesis
    by (simp add: trace_def final_state_def App_def render_error_def
        render_recommendations_def errorMessage_def)
qed

theorem server_error_shown_witness:
  "axios_get backend_failing (get_url (userId state_u1)) = Rejected server_error \<and>
   map_option status (response server_error) = Some 500 \<and>
   recommendations state_u1 = [] \<and>
   error_box (App (final_state (handleSubmit backend_failing state_u1))) =
     Some ''Error: Internal Server Error'' \<and>
   posts (trace (handleSubmit backend_failing state_u1)) = [] \<and>
   recommendations_section (App (final_state (handleSubmit backend_failing state_u1))) = None"
proof -
  have g: "axios_get backend_failing (get_url (userId state_u1)) = Rejected server_error"
    by (simp add: backend_failing_def)
  have st: "map_option status (response server_error) = Some 500"
    by (simp add: server_error_def)
  have r: "recommendations state_u1 = []"
    by (simp add: state_u1_def initial_state_def)
  from server_error_shown [OF g st] g st r show ?thesis
    by (simp add: server_error_def response_detail_def App_def render_recommendations_def)
qed

text \<open>
  The claim C8 as first stated, with no card shown, fails when an earlier submission
  left a card: the handler does not clear the list, and the card stays.
\<close>

theorem server_error_shown_counterexample:
  "axios_get backend_failing (get_url (userId state_showing)) = Rejected server_error \<and>
   map_option status (response server_error) = Some 500 \<and>
   recommendations_section (App (final_state (handleSubmit backend_failing state_showing))) =
     Some [\<lparr>key = ''c1'', heading = ''Chatroom c1'', score = ''Score: 0.87''\<rparr>]"
proof -
  have g: "axios_get backend_failing (get_url (userId state_showing)) = Rejected server_error"
    by (simp add: backend_failing_def)
  have st: "response_status server_error \<noteq> Some 404"
    by (simp add: server_error_def response_status_def)
  from submit_read_failed [OF g st] g show ?thesis
    by (simp add: final_state_def App_def render_recommendations_def render_card_def
        toFixed_text state_showing_def server_error_def c1_card_def c1_score)
qed

text \<open>
  Claim C9. At the end of a submission an error and a replaced list exclude each other:
  when the error is not null no \<open>setRecommendations\<close> ran and the list is the one
  from before the submission, and when \<open>setRecommendations\<close> ran the error is null.
\<close>

theorem error_excludes_update:
  "(error (final_state (handleSubmit srv s)) \<noteq> None \<longrightarrow>
      updates (trace (handleSubmit srv s)) = [] \<and>
      recommendations (final_state (handleSubmit srv s)) = recommendations s) \<and>
   (updates (trace (handleSubmit srv s)) \<noteq> [] \<longrightarrow>
      error (final_state (handleSubmit srv s)) = None)"
proof (cases rule: submit_cases [of srv s])
  case (read_ok resp b)
  from submit_read_ok [OF this] show ?thesis
    by (simp add: trace_def final_state_def)
next
  case (read_null resp)
  from submit_read_null [OF this] show ?thesis
    by (simp add: trace_def final_state_def)
next
  case (read_failed err)
  from submit_read_failed [OF this] show ?thesis
    by (simp add: trace_def final_state_def)
next
  case (created err resp b)
  from submit_created [OF this] show ?thesis
    by (simp add: trace_def final_state_def)
next
  case (created_null err resp)
  from submit_created_null [OF this] show ?thesis
    by (simp add: trace_def final_state_def)
next
  case (create_failed err err')
  from submit_create_failed [OF this] show ?thesis
    by (simp add: trace_def final_state_def)
qed

theorem error_excludes_update_witness:
  "error (final_state (handleSubmit backend_create_failing state_u1)) \<noteq> None \<and>
   updates (trace (handleSubmit backend_create_failing state_u1)) = [] \<and>
   recommendations (final_state (handleSubmit backend_create_failing state_u1)) =
     recommendations state_u1 \<and>
   updates (trace (handleSubmit backend_creating state_u1)) \<noteq> [] \<and>
   error (final_state (handleSubmit backend_creating state_u1)) = None"
proof -
  have e: "error (final_state (handleSubmit backend_create_failing state_u1)) \<noteq> None"
    by (simp add: handler_defs backend_create_failing_def not_found_error_def
        response_status_def)
  have u: "updates (trace (handleSubmit backend_creating state_u1)) \<noteq> []"
    by (simp add: handler_defs backend_creating_def not_found_error_def
        response_status_def created_response_def)
  from error_excludes_update [of backend_create_failing state_u1]
    error_excludes_update [of backend_creating state_u1] e u
  show ?thesis by simp
qed

text \<open>
  Claim C10. The submit handler of \<open>HW\<close> never throws: when the request succeeds
  the assignment to the \<open>const\<close> binding \<open>xx\<close> raises a TypeError inside the
  \<open>try\<close> block, which the handler's own \<open>catch\<close> logs, and a failed request is
  logged in the same way; the rendered output is the constant heading.
\<close>

theorem hello_handler_never_throws:
  "fst (HW_handleSubmit outcome) = Normal \<and>
   HW_handleSubmit (Resolved resp) =
     (Normal,
      [PreventDefault, AxiosGet ''http://localhost:8000/helloworld'',
       ConsoleError ''Request failed:'' (LogMessage ''Assignment to constant variable.'')]) \<and>
   HW_handleSubmit (Rejected err) =
     (Normal,
      [PreventDefault, AxiosGet ''http://localhost:8000/helloworld'',
       ConsoleError ''Request failed:'' (log_payload err)]) \<and>
   HW = \<lparr>h1 = ''Hello World!!!''\<rparr>"
  by (cases outcome)
    (simp_all add: HW_handleSubmit_def HW_catch_def HW_try_def assign_def hello_url_def
      log_payload_def HW_def)

end
